theory Spec2Isabelle
  imports Complex_Main "HOL-Library.Sublist" "HOL-Library.AList" "HOL-Library.Multiset"
begin

section \<open>Python values used by the agents\<close>

text \<open>
  Exceptions are values.  \<open>ValueError\<close> is what \<^verbatim>\<open>max\<close> raises on an empty
  sequence; \<open>AgentNotFound\<close>, \<open>AgentNotOnline\<close> and \<open>HTTPStatus\<close> are the three
  \<^verbatim>\<open>raise Exception(...)\<close> of \<^verbatim>\<open>_send_agent_message\<close>; \<open>TransportError\<close> stands for
  whatever the HTTP, Redis or database client raises (timeout, connection error);
  \<open>HTTP500\<close> is the \<^verbatim>\<open>HTTPException(status_code=500)\<close> of the endpoints.
\<close>

datatype error =
    ValueError
  | AgentNotFound string
  | AgentNotOnline string
  | HTTPStatus nat string
  | TransportError string
  | HTTP500 string

text \<open>
  \<^verbatim>\<open>str.lower()\<close> on the ASCII range; other characters are left as they are, whereas
  Python also folds letters outside ASCII (and a \<open>char\<close> here is a byte, not a code point),
  so \<open>lower\<close> is the builtin on ASCII texts only.  The keyword tables below are lower-case
  ASCII, and the router reads the folded text through \<open>str_in\<close> alone.
\<close>

definition lower_char :: "char \<Rightarrow> char" where
  "lower_char c =
     (if (65::nat) \<le> of_char c \<and> of_char c \<le> (90::nat)
      then char_of (of_char c + (32::nat)) else c)"

definition lower :: "string \<Rightarrow> string" where
  "lower s = map lower_char s"

text \<open>\<^verbatim>\<open>keyword in text\<close>: \<open>keyword\<close> occurs as a contiguous substring of \<open>text\<close>.\<close>

fun str_in :: "string \<Rightarrow> string \<Rightarrow> bool" where
  "str_in keyword [] = (keyword = [])"
| "str_in keyword (c # cs) = (prefix keyword (c # cs) \<or> str_in keyword cs)"

text \<open>
  \<^verbatim>\<open>max(iterable, key=f)\<close>: the running maximum is replaced only by a strictly greater
  element, so the first maximal element in iteration order is returned; an empty
  iterable raises \<^verbatim>\<open>ValueError\<close>.
\<close>

fun max_loop :: "('a \<Rightarrow> rat) \<Rightarrow> 'a \<Rightarrow> 'a list \<Rightarrow> 'a" where
  "max_loop key best [] = best"
| "max_loop key best (x # xs) = max_loop key (if key x > key best then x else best) xs"

definition py_max :: "'a list \<Rightarrow> ('a \<Rightarrow> rat) \<Rightarrow> error + 'a" where
  "py_max xs key = (case xs of [] \<Rightarrow> Inl ValueError | x # rest \<Rightarrow> Inr (max_loop key x rest))"


section \<open>Workflow router: \<^verbatim>\<open>MasterLINC._analyze_and_route\<close>\<close>

text \<open>
  The keyword table is a dict literal; a Python dict iterates in insertion order, so it
  is an association list in the order of the literal.
\<close>

definition intent_keywords :: "(string \<times> string list) list" where
  "intent_keywords =
    [(''doctorlinc'',
        [''doctor'', ''physician'', ''medical'', ''diagnosis'', ''prescription'',
         ''symptom'', ''treatment'', ''clinic'', ''consultation'', ''health'']),
     (''nurslinc'',
        [''nurse'', ''nursing'', ''care'', ''medication'', ''vital signs'',
         ''shift'', ''report'', ''patient care'', ''checklist'']),
     (''patientlinc'',
        [''patient'', ''appointment'', ''schedule'', ''education'', ''health tracking'',
         ''lab results'', ''medication reminder'', ''symptoms'']),
     (''bizlinc'',
        [''business'', ''entrepreneur'', ''startup'', ''proposal'', ''rfp'',
         ''market analysis'', ''etimad'', ''saudi business'']),
     (''paylinc'',
        [''payment'', ''billing'', ''invoice'', ''financial'', ''subscription'',
         ''stripe'', ''paypal'', ''transaction'']),
     (''chatlinc'',
        [''chat'', ''talk'', ''conversation'', ''help'', ''support'',
         ''question'', ''information''])]"

text \<open>\<^verbatim>\<open>sum(1 for keyword in keywords if keyword in user_intent_lower)\<close>\<close>

definition keyword_count :: "string list \<Rightarrow> string \<Rightarrow> nat" where
  "keyword_count keywords user_intent_lower =
     length (filter (\<lambda>keyword. str_in keyword user_intent_lower) keywords)"

text \<open>
  The scoring loop.  \<open>agent_scores\<close> is the dict being filled: \<open>AList.update\<close> overwrites
  an existing key in place and appends a new key at the end, which is the insertion
  order of a Python dict.  The quotient \<^verbatim>\<open>score / len(keywords)\<close> is a float in the
  source; numerator and denominator are at most 10 here, and correctly rounded division
  of such integers orders and identifies the quotients as the rationals do, so the
  scores are rationals.
\<close>

fun score_loop ::
  "(string \<times> string list) list \<Rightarrow> string \<Rightarrow> (string \<times> rat) list \<Rightarrow> (string \<times> rat) list" where
  "score_loop [] user_intent_lower agent_scores = agent_scores"
| "score_loop ((agent_name, keywords) # rest) user_intent_lower agent_scores =
     (let score = keyword_count keywords user_intent_lower
      in score_loop rest user_intent_lower
           (if score > 0
            then AList.update agent_name (of_nat score / of_nat (length keywords)) agent_scores
            else agent_scores))"

text \<open>\<^verbatim>\<open>if not agent_scores: agent_scores["chatlinc"] = 0.8\<close>\<close>

definition with_default :: "(string \<times> rat) list \<Rightarrow> (string \<times> rat) list" where
  "with_default agent_scores =
     (if agent_scores = [] then AList.update ''chatlinc'' (4 / 5) agent_scores else agent_scores)"

text \<open>
  \<^verbatim>\<open>max(agent_scores.keys(), key=lambda x: agent_scores[x])\<close>.  The keys of a dict are
  distinct and \<open>x\<close> ranges over them, so \<^verbatim>\<open>agent_scores[x]\<close> is the value stored beside
  \<open>x\<close>: the maximum is taken over the items by their value and the key is returned.
\<close>

definition select_primary :: "(string \<times> rat) list \<Rightarrow> error + string" where
  "select_primary agent_scores = map_sum id fst (py_max agent_scores snd)"

text \<open>\<^verbatim>\<open>_get_supporting_agents\<close>: \<^verbatim>\<open>support_map.get(primary_agent, [])\<close>; the context is not read.\<close>

definition support_map :: "(string \<times> string list) list" where
  "support_map =
    [(''doctorlinc'', [''nurslinc'', ''patientlinc'']),
     (''nurslinc'', [''doctorlinc'']),
     (''patientlinc'', [''doctorlinc'', ''nurslinc'']),
     (''bizlinc'', [''paylinc'', ''insightlinc'']),
     (''paylinc'', [''bizlinc'']),
     (''chatlinc'', [])]"

definition get_supporting_agents :: "string \<Rightarrow> string list" where
  "get_supporting_agents primary_agent =
     (case map_of support_map primary_agent of Some agents \<Rightarrow> agents | None \<Rightarrow> [])"

record step =
  step_no :: nat
  step_agent :: string
  step_action :: string
  step_status :: string

text \<open>
  \<^verbatim>\<open>for i, agent in enumerate(supporting_agents): steps.append({"step": i + 2, ...})\<close>;
  the first argument is the loop index \<open>i\<close>.
\<close>

fun support_steps :: "nat \<Rightarrow> string list \<Rightarrow> step list" where
  "support_steps i [] = []"
| "support_steps i (agent # rest) =
     \<lparr>step_no = i + 2, step_agent = agent, step_action = ''support_processing'',
      step_status = ''waiting''\<rparr> # support_steps (i + 1) rest"

record workflow_plan =
  workflow_id :: string
  primary_agent :: string
  supporting_agents :: "string list"
  estimated_duration :: nat
  steps :: "step list"

text \<open>
  The routing function over a keyword table; \<open>uuid4\<close> is the value \<^verbatim>\<open>str(uuid.uuid4())\<close>
  returns in this call.
\<close>

definition route_with ::
  "(string \<times> string list) list \<Rightarrow> string \<Rightarrow> string \<Rightarrow> error + workflow_plan" where
  "route_with table user_intent uuid4 =
     (let user_intent_lower = lower user_intent;
          agent_scores = with_default (score_loop table user_intent_lower [])
      in case select_primary agent_scores of
           Inl e \<Rightarrow> Inl e
         | Inr primary \<Rightarrow>
             let supporting = get_supporting_agents primary;
                 first_steps = [\<lparr>step_no = 1, step_agent = primary,
                                 step_action = ''process_request'', step_status = ''pending''\<rparr>]
             in Inr \<lparr>workflow_id = uuid4, primary_agent = primary,
                     supporting_agents = supporting, estimated_duration = 5,
                     steps = first_steps @ support_steps 0 supporting\<rparr>)"

text \<open>The dict \<open>agent_scores\<close> as the scoring loop leaves it, before the default is added.\<close>

definition agent_scores_of :: "string \<Rightarrow> (string \<times> rat) list" where
  "agent_scores_of user_intent = score_loop intent_keywords (lower user_intent) []"

definition analyze_and_route :: "string \<Rightarrow> string \<Rightarrow> error + workflow_plan" where
  "analyze_and_route user_intent uuid4 = route_with intent_keywords user_intent uuid4"


section \<open>Workflow execution engine\<close>

text \<open>JSON-like payload values (\<^verbatim>\<open>Dict[str, Any]\<close>); \<open>JNone\<close> is Python's \<^verbatim>\<open>None\<close>.\<close>

datatype json =
    JNone
  | JBool bool
  | JInt int
  | JStr string
  | JList "json list"
  | JDict "(string \<times> json) list"

text \<open>\<^verbatim>\<open>payload.get(key)\<close>\<close>

definition dict_get :: "(string \<times> json) list \<Rightarrow> string \<Rightarrow> json" where
  "dict_get payload k = (case map_of payload k of Some v \<Rightarrow> v | None \<Rightarrow> JNone)"

text \<open>
  An entry of \<^verbatim>\<open>active_workflows\<close>: \<^verbatim>\<open>{**workflow_data, "status": ..., "user_id": ...,
  "started_at": ...}\<close>, later extended by \<^verbatim>\<open>"completed_at"\<close> and \<^verbatim>\<open>"error"\<close>; a key that
  was never written is \<open>None\<close>.
\<close>

record workflow_instance = workflow_plan +
  wf_status :: string
  wf_user_id :: int
  wf_started_at :: nat
  wf_completed_at :: "nat option"
  wf_error :: "json option"

text \<open>
  \<^verbatim>\<open>MessageBroker\<close>: \<open>redis_client\<close> says whether the attribute holds a client (it is
  \<^verbatim>\<open>None\<close> until \<^verbatim>\<open>connect\<close> has created one) and \<open>broker_id\<close> is \<^verbatim>\<open>id(self)\<close>.  \<open>redis_env\<close>
  is the environment of one run: whether \<^verbatim>\<open>redis.from_url\<close>, \<^verbatim>\<open>ping\<close> and \<^verbatim>\<open>publish\<close>
  return or raise, and \<open>publish_timestamp\<close>, the value of \<^verbatim>\<open>datetime.now().isoformat()\<close>
  when \<^verbatim>\<open>publish\<close> stamps the message.
\<close>

record broker =
  redis_client :: bool
  is_connected :: bool
  broker_id :: int

record redis_env =
  from_url_ok :: bool
  ping_ok :: bool
  publish_ok :: bool
  publish_timestamp :: string

text \<open>\<^verbatim>\<open>MessageBroker.connect\<close>: every exception is caught and leaves \<open>is_connected = False\<close>.\<close>

definition connect :: "redis_env \<Rightarrow> broker \<Rightarrow> broker" where
  "connect env b =
     (if \<not> from_url_ok env then b\<lparr>is_connected := False\<rparr>
      else if \<not> ping_ok env then b\<lparr>redis_client := True, is_connected := False\<rparr>
      else b\<lparr>redis_client := True, is_connected := True\<rparr>)"

text \<open>
  \<^verbatim>\<open>MessageBroker.publish\<close>.  The message is a dict; \<^verbatim>\<open>{**message, "timestamp": ...,
  "broker_id": id(self)}\<close> keeps its keys in order and sets the two stamps.  The result is
  the broker, the trace of calls made to \<^verbatim>\<open>redis_client.publish\<close> (the channel and the
  stamped message that \<^verbatim>\<open>json.dumps\<close> serialises, whether the server took them or not)
  and what the method gives its caller: the \<^verbatim>\<open>try\<close> body's exception, if any, is
  logged by the \<^verbatim>\<open>except Exception\<close> clause and the method returns normally.
\<close>

definition publish_body ::
  "redis_env \<Rightarrow> broker \<Rightarrow> string \<Rightarrow> (string \<times> json) list
     \<Rightarrow> (string \<times> json) list \<times> (error + unit)" where
  "publish_body env b channel message =
     (let message_with_timestamp =
            AList.update ''broker_id'' (JInt (broker_id b))
              (AList.update ''timestamp'' (JStr (publish_timestamp env)) message)
      in if \<not> redis_client b then ([], Inl (TransportError ''no redis client''))
         else if publish_ok env then ([(channel, JDict message_with_timestamp)], Inr ())
         else ([(channel, JDict message_with_timestamp)],
               Inl (TransportError ''redis publish failed'')))"

definition publish ::
  "redis_env \<Rightarrow> broker \<Rightarrow> string \<Rightarrow> (string \<times> json) list
     \<Rightarrow> broker \<times> (string \<times> json) list \<times> (error + unit)" where
  "publish env b channel message =
     (let b1 = (if \<not> is_connected b then connect env b else b);
          (calls, outcome) = publish_body env b1 channel message
      in case outcome of
           Inl e \<Rightarrow> (b1, calls, Inr ())
         | Inr u \<Rightarrow> (b1, calls, Inr ()))"

text \<open>\<^verbatim>\<open>AgentMessenger.send_to_agent\<close>\<close>

definition send_to_agent ::
  "redis_env \<Rightarrow> string \<Rightarrow> broker \<Rightarrow> string \<Rightarrow> string \<Rightarrow> json
     \<Rightarrow> broker \<times> (string \<times> json) list \<times> (error + unit)" where
  "send_to_agent env agent_name b target_agent message_type payload =
     publish env b (''linc:agent:'' @ target_agent)
       [(''from_agent'', JStr agent_name), (''to_agent'', JStr target_agent),
        (''message_type'', JStr message_type), (''payload'', payload)]"

text \<open>
  The engine's state: the workflow map, the messenger's broker, and the trace of calls
  that reached \<^verbatim>\<open>redis_client.publish\<close>.
\<close>

record engine =
  active_workflows :: "string \<rightharpoonup> workflow_instance"
  messenger_broker :: broker
  redis_calls :: "(string \<times> json) list"

text \<open>\<^verbatim>\<open>str(e)\<close> of the exceptions above; \<open>show_nat\<close> prints a number in decimal.\<close>

fun show_nat :: "nat \<Rightarrow> string" where
  "show_nat n =
     (if n < 10 then [char_of (48 + n)]
      else show_nat (n div 10) @ [char_of (48 + n mod 10)])"

declare show_nat.simps [simp del]

fun error_text :: "error \<Rightarrow> string" where
  "error_text ValueError = ''max() arg is an empty sequence''"
| "error_text (AgentNotFound a) = ''Agent '' @ a @ '' not found''"
| "error_text (AgentNotOnline a) = ''Agent '' @ a @ '' is not online''"
| "error_text (HTTPStatus code body) = ''HTTP '' @ show_nat code @ '': '' @ body"
| "error_text (TransportError t) = t"
| "error_text (HTTP500 t) = t"

text \<open>
  \<^verbatim>\<open>MasterLINC._execute_workflow\<close>.  The instance is stored as \<open>executing\<close>, the
  \<open>workflow_request\<close> is handed to the messenger, and the \<^verbatim>\<open>except\<close> clause marks the
  instance \<open>error\<close> when the \<^verbatim>\<open>try\<close> body raised.
\<close>

definition execute_workflow ::
  "redis_env \<Rightarrow> nat \<Rightarrow> string \<Rightarrow> workflow_plan \<Rightarrow> int \<Rightarrow> engine \<Rightarrow> engine" where
  "execute_workflow env now wid workflow_data user_id st =
     (let stored = workflow_plan.extend workflow_data
                     (workflow_instance.fields ''executing'' user_id now None None);
          wfs = (active_workflows st)(wid \<mapsto> stored);
          message_payload = JDict [(''workflow_id'', JStr wid), (''user_id'', JInt user_id),
                                   (''request_type'', JStr ''workflow_start''),
                                   (''context'', JDict [])];
          (b, calls, outcome) =
             send_to_agent env ''masterlinc'' (messenger_broker st)
               (primary_agent workflow_data) ''workflow_request'' message_payload;
          st1 = st\<lparr>active_workflows := wfs, messenger_broker := b,
                   redis_calls := redis_calls st @ calls\<rparr>
      in case outcome of
           Inr u \<Rightarrow> st1
         | Inl e \<Rightarrow>
             (case wfs wid of
                None \<Rightarrow> st1
              | Some w \<Rightarrow>
                  st1\<lparr>active_workflows :=
                        wfs(wid \<mapsto> w\<lparr>wf_status := ''error'',
                                       wf_error := Some (JStr (error_text e))\<rparr>)\<rparr>))"

text \<open>
  \<^verbatim>\<open>workflow_id in self.active_workflows\<close> for a payload value: the keys are strings, so
  only a string can be a member; a list or a dict is unhashable and the test raises
  \<^verbatim>\<open>TypeError\<close>.
\<close>

datatype callback_result = Acknowledged | RaisedTypeError

fun unhashable :: "json \<Rightarrow> bool" where
  "unhashable (JList xs) = True"
| "unhashable (JDict kvs) = True"
| "unhashable v = False"

fun known_workflow :: "(string \<rightharpoonup> workflow_instance) \<Rightarrow> json \<Rightarrow> string option" where
  "known_workflow wfs (JStr wid) = (if wfs wid = None then None else Some wid)"
| "known_workflow wfs v = None"

text \<open>
  \<^verbatim>\<open>MasterLINC._handle_agent_message\<close> on the workflow map.  The
  \<open>agent_registration\<close> branch writes the agent table only, and any other message type
  is acknowledged without effect.
\<close>

definition handle_agent_message ::
  "nat \<Rightarrow> string \<Rightarrow> string \<Rightarrow> (string \<times> json) list
     \<Rightarrow> (string \<rightharpoonup> workflow_instance) \<Rightarrow> (string \<rightharpoonup> workflow_instance) \<times> callback_result" where
  "handle_agent_message now from_agent message_type payload wfs =
     (if message_type = ''workflow_complete'' then
        (let workflow_id = dict_get payload ''workflow_id''
         in if unhashable workflow_id then (wfs, RaisedTypeError)
            else case known_workflow wfs workflow_id of
                   None \<Rightarrow> (wfs, Acknowledged)
                 | Some wid \<Rightarrow>
                     (case wfs wid of
                        None \<Rightarrow> (wfs, Acknowledged)
                      | Some w \<Rightarrow>
                          (wfs(wid \<mapsto> w\<lparr>wf_status := ''completed'',
                                          wf_completed_at := Some now\<rparr>), Acknowledged)))
      else if message_type = ''workflow_error'' then
        (let workflow_id = dict_get payload ''workflow_id''
         in if unhashable workflow_id then (wfs, RaisedTypeError)
            else case known_workflow wfs workflow_id of
                   None \<Rightarrow> (wfs, Acknowledged)
                 | Some wid \<Rightarrow>
                     (case wfs wid of
                        None \<Rightarrow> (wfs, Acknowledged)
                      | Some w \<Rightarrow>
                          (wfs(wid \<mapsto> w\<lparr>wf_status := ''error'',
                                          wf_error := Some (dict_get payload ''error'')\<rparr>),
                           Acknowledged)))
      else (wfs, Acknowledged))"

text \<open>
  An inbound callback as it reaches \<^verbatim>\<open>/messages/receive\<close>, with its arrival time, and
  the engine's map after a sequence of them.
\<close>

record callback =
  cb_time :: nat
  cb_from :: string
  cb_type :: string
  cb_payload :: "(string \<times> json) list"

fun handle_all ::
  "callback list \<Rightarrow> (string \<rightharpoonup> workflow_instance) \<Rightarrow> (string \<rightharpoonup> workflow_instance)" where
  "handle_all [] wfs = wfs"
| "handle_all (c # cs) wfs =
     handle_all cs (fst (handle_agent_message (cb_time c) (cb_from c) (cb_type c) (cb_payload c) wfs))"


section \<open>Direct delivery: \<^verbatim>\<open>POST /messages/send\<close> and \<^verbatim>\<open>_send_agent_message\<close>\<close>

text \<open>The rows of the \<^verbatim>\<open>agents\<close> and \<^verbatim>\<open>inter_agent_messages\<close> tables that the code reads or writes.\<close>

record agent =
  agent_name :: string
  agent_status :: string
  agent_port :: nat
  last_heartbeat :: nat

record inter_agent_message =
  msg_from_agent :: string
  msg_to_agent :: string
  msg_message_type :: string
  msg_payload :: json
  msg_priority :: string
  msg_status :: string
  msg_correlation_id :: "string option"
  msg_created_at :: nat
  msg_processed_at :: "nat option"

record db =
  agents :: "agent list"
  messages :: "inter_agent_message list"

text \<open>The request body \<^verbatim>\<open>AgentMessage\<close>.\<close>

record agent_message =
  req_to_agent :: string
  req_message_type :: string
  req_payload :: json
  req_priority :: string
  req_correlation_id :: "string option"

text \<open>The arguments handed to \<^verbatim>\<open>background_tasks.add_task(self._send_agent_message, ...)\<close>.\<close>

record send_task =
  task_to_agent :: string
  task_message_type :: string
  task_payload :: json
  task_correlation_id :: "string option"

record send_response =
  sr_status :: string
  sr_correlation_id :: "string option"

text \<open>Truth value of an \<^verbatim>\<open>Optional[str]\<close>: \<^verbatim>\<open>None\<close> and the empty string are false.\<close>

fun truthy :: "string option \<Rightarrow> bool" where
  "truthy None = False"
| "truthy (Some s) = (s \<noteq> [])"

text \<open>
  The endpoint \<^verbatim>\<open>send_message\<close>.  \<open>now\<close> is the database clock (\<^verbatim>\<open>func.now()\<close>),
  \<open>uuid4\<close> the value of \<^verbatim>\<open>str(uuid.uuid4())\<close>, \<open>commit_ok\<close> whether \<^verbatim>\<open>db.commit()\<close>
  returns.  The column defaults give \<open>status = pending\<close> and no \<open>processed_at\<close>.
\<close>

definition send_message ::
  "string \<Rightarrow> nat \<Rightarrow> string \<Rightarrow> bool \<Rightarrow> agent_message \<Rightarrow> db
     \<Rightarrow> (error + send_response) \<times> send_task option \<times> db" where
  "send_message self_name now uuid4 commit_ok message d =
     (let inter_msg =
            \<lparr>msg_from_agent = self_name,
             msg_to_agent = req_to_agent message,
             msg_message_type = req_message_type message,
             msg_payload = req_payload message,
             msg_priority = req_priority message,
             msg_status = ''pending'',
             msg_correlation_id =
               (if truthy (req_correlation_id message) then req_correlation_id message
                else Some uuid4),
             msg_created_at = now,
             msg_processed_at = None\<rparr>
      in if \<not> commit_ok then (Inl (HTTP500 ''commit failed''), None, d)
         else
           (Inr \<lparr>sr_status = ''sent'', sr_correlation_id = msg_correlation_id inter_msg\<rparr>,
            Some \<lparr>task_to_agent = req_to_agent message,
                  task_message_type = req_message_type message,
                  task_payload = req_payload message,
                  task_correlation_id = req_correlation_id message\<rparr>,
            d\<lparr>messages := messages d @ [inter_msg]\<rparr>))"

text \<open>What the peer's \<^verbatim>\<open>/messages/receive\<close> answers; \<open>resp_json\<close> is \<^verbatim>\<open>response.json()\<close>.\<close>

record http_response =
  resp_status_code :: nat
  resp_text :: string
  resp_json :: "error + json"

text \<open>\<^verbatim>\<open>db.query(Agent).filter(Agent.name == to_agent).first()\<close>\<close>

definition find_agent :: "agent list \<Rightarrow> string \<Rightarrow> agent option" where
  "find_agent ags name = List.find (\<lambda>a. agent_name a = name) ags"

text \<open>
  The \<^verbatim>\<open>try\<close> body of \<^verbatim>\<open>_send_agent_message\<close>.  \<open>http\<close> is what \<^verbatim>\<open>client.post(...,
  timeout=30.0)\<close> does in this run: it raises (\<open>Inl\<close>) or returns a response.
\<close>

definition deliver ::
  "agent list \<Rightarrow> (error + http_response) \<Rightarrow> string \<Rightarrow> error + json" where
  "deliver ags http to_agent =
     (case find_agent ags to_agent of
        None \<Rightarrow> Inl (AgentNotFound to_agent)
      | Some target_agent \<Rightarrow>
          if agent_status target_agent \<noteq> ''online'' then Inl (AgentNotOnline to_agent)
          else (case http of
                  Inl e \<Rightarrow> Inl e
                | Inr response \<Rightarrow>
                    if resp_status_code response = 200 then resp_json response
                    else Inl (HTTPStatus (resp_status_code response) (resp_text response))))"

text \<open>
  The \<^verbatim>\<open>except\<close> clause: the first row with this correlation id, if there is one, is
  set to \<open>failed\<close>.
\<close>

fun mark_first_failed :: "string \<Rightarrow> inter_agent_message list \<Rightarrow> inter_agent_message list" where
  "mark_first_failed cid [] = []"
| "mark_first_failed cid (m # ms) =
     (if msg_correlation_id m = Some cid then m\<lparr>msg_status := ''failed''\<rparr> # ms
      else m # mark_first_failed cid ms)"

text \<open>
  \<^verbatim>\<open>_send_agent_message\<close>: the peer's response body on success; on any exception the
  \<^verbatim>\<open>except\<close> clause runs and the method returns \<^verbatim>\<open>None\<close>.
\<close>

definition send_agent_message ::
  "(error + http_response) \<Rightarrow> string \<Rightarrow> string \<Rightarrow> json \<Rightarrow> string option \<Rightarrow> db
     \<Rightarrow> json option \<times> db" where
  "send_agent_message http to_agent message_type payload correlation_id d =
     (case deliver (agents d) http to_agent of
        Inr body \<Rightarrow> (Some body, d)
      | Inl e \<Rightarrow>
          (None,
           case correlation_id of
             None \<Rightarrow> d
           | Some cid \<Rightarrow>
               if truthy (Some cid)
               then d\<lparr>messages := mark_first_failed cid (messages d)\<rparr>
               else d))"

text \<open>
  One call of the endpoint followed by its background task, as FastAPI runs it after the
  response has been produced.
\<close>

definition post_messages_send ::
  "string \<Rightarrow> nat \<Rightarrow> string \<Rightarrow> bool \<Rightarrow> (error + http_response) \<Rightarrow> agent_message \<Rightarrow> db
     \<Rightarrow> (error + send_response) \<times> json option \<times> db" where
  "post_messages_send self_name now uuid4 commit_ok http message d =
     (case send_message self_name now uuid4 commit_ok message d of
        (resp, None, d1) \<Rightarrow> (resp, None, d1)
      | (resp, Some task, d1) \<Rightarrow>
          (let (result, d2) =
                 send_agent_message http (task_to_agent task) (task_message_type task)
                   (task_payload task) (task_correlation_id task) d1
           in (resp, result, d2)))"


section \<open>Health monitor: \<^verbatim>\<open>OrchestrationService.check_agent_health\<close>\<close>

datatype agent_type =
    DOCTOR | NURSE | PATIENT | CARETEAM | BUSINESS | PAYMENT | INSIGHT
  | DEVELOPMENT | AUTOMATION | CODE | MEDIA | EDUCATION | CHAT | OPENID

fun agent_type_value :: "agent_type \<Rightarrow> string" where
  "agent_type_value DOCTOR = ''doctor''"
| "agent_type_value NURSE = ''nurse''"
| "agent_type_value PATIENT = ''patient''"
| "agent_type_value CARETEAM = ''careteam''"
| "agent_type_value BUSINESS = ''business''"
| "agent_type_value PAYMENT = ''payment''"
| "agent_type_value INSIGHT = ''insight''"
| "agent_type_value DEVELOPMENT = ''development''"
| "agent_type_value AUTOMATION = ''automation''"
| "agent_type_value CODE = ''code''"
| "agent_type_value MEDIA = ''media''"
| "agent_type_value EDUCATION = ''education''"
| "agent_type_value CHAT = ''chat''"
| "agent_type_value OPENID = ''openid''"

text \<open>
  \<^verbatim>\<open>f"agent_health:{agent_type}"\<close>.  Since Python 3.11 the format of a member of a
  \<^verbatim>\<open>(str, Enum)\<close> class is its \<^verbatim>\<open>str()\<close>, class and member name; earlier versions
  formatted it as its value.  Either way distinct members give distinct keys.
\<close>

fun agent_type_name :: "agent_type \<Rightarrow> string" where
  "agent_type_name DOCTOR = ''DOCTOR''"
| "agent_type_name NURSE = ''NURSE''"
| "agent_type_name PATIENT = ''PATIENT''"
| "agent_type_name CARETEAM = ''CARETEAM''"
| "agent_type_name BUSINESS = ''BUSINESS''"
| "agent_type_name PAYMENT = ''PAYMENT''"
| "agent_type_name INSIGHT = ''INSIGHT''"
| "agent_type_name DEVELOPMENT = ''DEVELOPMENT''"
| "agent_type_name AUTOMATION = ''AUTOMATION''"
| "agent_type_name CODE = ''CODE''"
| "agent_type_name MEDIA = ''MEDIA''"
| "agent_type_name EDUCATION = ''EDUCATION''"
| "agent_type_name CHAT = ''CHAT''"
| "agent_type_name OPENID = ''OPENID''"

definition cache_key :: "agent_type \<Rightarrow> string" where
  "cache_key t = ''agent_health:AgentType.'' @ agent_type_name t"

text \<open>\<^verbatim>\<open>Settings.agent_registry_ttl\<close>, in seconds, when the environment does not set it.\<close>

definition default_agent_registry_ttl :: nat where
  "default_agent_registry_ttl = 60"

text \<open>
  Modelled from the spec: the cache store behind \<^verbatim>\<open>self.redis\<close> (the service's base class
  and the Redis server are not among the sources).  A verdict cached with a time to live
  expires that many seconds after it was stored and is absent from then on; \<^verbatim>\<open>get\<close>
  returns the stored bytes or \<^verbatim>\<open>None\<close>.  A key maps to its value and the time at which it
  expires.  \<open>probes\<close> is the trace of health probes issued
  (\<^verbatim>\<open>http_client.get(health_url)\<close>).
\<close>

record health_state =
  cache :: "string \<rightharpoonup> (string \<times> nat)"
  probes :: "agent_type list"

definition redis_get :: "(string \<rightharpoonup> (string \<times> nat)) \<Rightarrow> nat \<Rightarrow> string \<Rightarrow> string option" where
  "redis_get c now k =
     (case c k of None \<Rightarrow> None | Some (v, expires) \<Rightarrow> if now < expires then Some v else None)"

definition redis_setex ::
  "(string \<rightharpoonup> (string \<times> nat)) \<Rightarrow> nat \<Rightarrow> string \<Rightarrow> nat \<Rightarrow> string \<Rightarrow> (string \<rightharpoonup> (string \<times> nat))" where
  "redis_setex c now k ttl v = c(k \<mapsto> (v, now + ttl))"

text \<open>
  The \<^verbatim>\<open>try\<close> body.  \<open>get_ok\<close> and \<open>setex_ok\<close> say whether the call of \<^verbatim>\<open>redis.get\<close> and
  the call of \<^verbatim>\<open>redis.setex\<close> of this run reach the server and return, or raise; \<open>probe\<close>
  is what the health request does: it raises or returns a status code.  Redis refuses
  \<^verbatim>\<open>SETEX\<close> with a time of zero, which raises as well.
\<close>

definition check_agent_health_body ::
  "nat \<Rightarrow> bool \<Rightarrow> bool \<Rightarrow> (error + nat) \<Rightarrow> nat \<Rightarrow> agent_type \<Rightarrow> health_state
     \<Rightarrow> (error + bool) \<times> health_state" where
  "check_agent_health_body agent_registry_ttl get_ok setex_ok probe now t st =
     (if \<not> get_ok then (Inl (TransportError ''redis get failed''), st)
      else if redis_get (cache st) now (cache_key t) = Some ''healthy'' then (Inr True, st)
      else
        (let st1 = st\<lparr>probes := probes st @ [t]\<rparr>
         in case probe of
              Inl e \<Rightarrow> (Inl e, st1)
            | Inr code \<Rightarrow>
                (let is_healthy = (code = 200)
                 in if \<not> setex_ok
                    then (Inl (TransportError ''redis setex failed''), st1)
                    else if agent_registry_ttl = 0
                    then (Inl (TransportError ''invalid expire time''), st1)
                    else (Inr is_healthy,
                          st1\<lparr>cache := redis_setex (cache st1) now (cache_key t) agent_registry_ttl
                                           (if is_healthy then ''healthy'' else ''unhealthy'')\<rparr>))))"

text \<open>\<^verbatim>\<open>check_agent_health\<close>: \<^verbatim>\<open>except Exception: return False\<close>.\<close>

definition check_agent_health ::
  "nat \<Rightarrow> bool \<Rightarrow> bool \<Rightarrow> (error + nat) \<Rightarrow> nat \<Rightarrow> agent_type \<Rightarrow> health_state
     \<Rightarrow> bool \<times> health_state" where
  "check_agent_health agent_registry_ttl get_ok setex_ok probe now t st =
     (case check_agent_health_body agent_registry_ttl get_ok setex_ok probe now t st of
        (Inl e, st1) \<Rightarrow> (False, st1)
      | (Inr verdict, st1) \<Rightarrow> (verdict, st1))"


section \<open>Properties of the router\<close>

text \<open>\<open>str_in\<close> is the contiguous-sublist relation of the list library.\<close>

lemma str_in_sublist: "str_in keyword intent = sublist keyword intent"
  by (induction intent) (simp_all add: sublist_Cons_right)

lemma keyword_count_mset:
  "keyword_count ks intent = size (filter_mset (\<lambda>k. str_in k intent) (mset ks))"
  by (simp add: keyword_count_def flip: mset_filter)

lemma update_fresh: "k \<notin> fst ` set al \<Longrightarrow> AList.update k v al = al @ [(k, v)]"
  by (induction al) auto

lemma score_loop_distinct:
  "distinct (map fst table) \<Longrightarrow> fst ` set table \<inter> fst ` set acc = {} \<Longrightarrow>
   score_loop table intent acc =
     acc @ map (\<lambda>(n, ks). (n, of_nat (keyword_count ks intent) / of_nat (length ks)))
         (filter (\<lambda>(n, ks). 0 < keyword_count ks intent) table)"
proof (induction table arbitrary: acc)
  case Nil
  then show ?case by simp
next
  case (Cons p table)
  obtain n ks where p: "p = (n, ks)" by (cases p)
  from Cons.prems have fresh: "n \<notin> fst ` set acc" and d: "distinct (map fst table)"
    and nt: "n \<notin> fst ` set table" and disj: "fst ` set table \<inter> fst ` set acc = {}"
    by (auto simp: p)
  show ?case
  proof (cases "0 < keyword_count ks intent")
    case True
    let ?v = "of_nat (keyword_count ks intent) / of_nat (length ks) :: rat"
    have "fst ` set table \<inter> fst ` set (acc @ [(n, ?v)]) = {}"
      using disj nt by auto
    from Cons.IH[OF d this] True fresh show ?thesis
      by (simp add: p update_fresh)
  next
    case False
    with Cons.IH[OF d disj] show ?thesis by (simp add: p)
  qed
qed

lemma max_loop_first_max:
  "\<exists>pre post. x # xs = pre @ max_loop key x xs # post
      \<and> (\<forall>a\<in>set pre. key a < key (max_loop key x xs))
      \<and> (\<forall>a\<in>set post. key a \<le> key (max_loop key x xs))"
proof (induction xs arbitrary: x)
  case Nil
  have "[x] = [] @ x # [] \<and> (\<forall>a\<in>set []. key a < key x) \<and> (\<forall>a\<in>set []. key a \<le> key x)"
    by simp
  then show ?case unfolding max_loop.simps by blast
next
  case (Cons y ys)
  define b where "b = (if key y > key x then y else x)"
  define r where "r = max_loop key b ys"
  from Cons.IH[of b] obtain pre post where
    eq: "b # ys = pre @ r # post" and lt: "\<forall>a\<in>set pre. key a < key r"
    and le: "\<forall>a\<in>set post. key a \<le> key r" unfolding r_def by blast
  have res: "max_loop key x (y # ys) = r" by (simp add: r_def b_def)
  have bx: "key x \<le> key b" and "by": "key y \<le> key b" by (auto simp: b_def)
  have "\<exists>pre post. x # y # ys = pre @ r # post
      \<and> (\<forall>a\<in>set pre. key a < key r) \<and> (\<forall>a\<in>set post. key a \<le> key r)"
  proof (cases pre)
    case Nil
    with eq have rb: "r = b" and post: "post = ys" by simp_all
    show ?thesis
    proof (cases "key y > key x")
      case True
      then have "r = y" by (simp add: rb b_def)
      with True le post
      have "x # y # ys = [x] @ r # ys \<and> (\<forall>a\<in>set [x]. key a < key r)
              \<and> (\<forall>a\<in>set ys. key a \<le> key r)"
        by simp
      then show ?thesis by blast
    next
      case False
      then have "r = x" by (simp add: rb b_def)
      with False le post
      have "x # y # ys = [] @ r # (y # ys) \<and> (\<forall>a\<in>set []. key a < key r)
              \<and> (\<forall>a\<in>set (y # ys). key a \<le> key r)"
        by auto
      then show ?thesis by blast
    qed
  next
    case (Cons b' pre')
    with eq have b': "b' = b" and ys: "ys = pre' @ r # post" by simp_all
    from lt Cons b' have blt: "key b < key r" and lt': "\<forall>a\<in>set pre'. key a < key r"
      by auto
    from bx "by" blt have "key x < key r" "key y < key r" by auto
    with lt' le ys
    have "x # y # ys = (x # y # pre') @ r # post \<and> (\<forall>a\<in>set (x # y # pre'). key a < key r)
            \<and> (\<forall>a\<in>set post. key a \<le> key r)"
      by auto
    then show ?thesis by blast
  qed
  then show ?case unfolding res .
qed

lemma intent_keywords_distinct: "distinct (map fst intent_keywords)"
  by (simp add: intent_keywords_def)

lemma support_steps_length: "length (support_steps i xs) = length xs"
  by (induction xs arbitrary: i) simp_all

lemma support_steps_nth:
  "j < length xs \<Longrightarrow> support_steps i xs ! j =
     \<lparr>step_no = i + j + 2, step_agent = xs ! j, step_action = ''support_processing'',
      step_status = ''waiting''\<rparr>"
proof (induction xs arbitrary: i j)
  case Nil then show ?case by simp
next
  case (Cons x xs)
  then show ?case by (cases j) simp_all
qed

lemma support_steps_numbers: "map step_no (support_steps i xs) = [i + 2 ..< i + 2 + length xs]"
proof (induction xs arbitrary: i)
  case Nil then show ?case by simp
next
  case (Cons x xs)
  from Cons.IH[of "i + 1"] show ?case by (simp add: upt_rec)
qed

lemma score_loop_no_match:
  "\<forall>(n, ks)\<in>set table. keyword_count ks intent = 0 \<Longrightarrow> score_loop table intent acc = acc"
  by (induction table arbitrary: acc) auto

lemma select_primary_nonempty:
  "scores \<noteq> [] \<Longrightarrow>
   \<exists>pre n s post. select_primary scores = Inr n \<and> scores = pre @ (n, s) # post
      \<and> (\<forall>a\<in>set pre. snd a < s) \<and> (\<forall>a\<in>set post. snd a \<le> s)"
proof -
  assume "scores \<noteq> []"
  then obtain x xs where sc: "scores = x # xs" by (cases scores) auto
  from max_loop_first_max[of x xs snd] obtain pre post where
    eq: "x # xs = pre @ max_loop snd x xs # post"
    and lt: "\<forall>a\<in>set pre. snd a < snd (max_loop snd x xs)"
    and le: "\<forall>a\<in>set post. snd a \<le> snd (max_loop snd x xs)" by blast
  obtain n s where m: "max_loop snd x xs = (n, s)" by (cases "max_loop snd x xs")
  have "select_primary scores = Inr n" by (simp add: select_primary_def py_max_def sc m)
  with eq lt le m sc show ?thesis by auto
qed

lemma with_default_nonempty: "with_default scores \<noteq> []"
  by (simp add: with_default_def)

lemma route_with_total:
  "\<exists>n. select_primary (with_default (score_loop table (lower user_intent) [])) = Inr n
     \<and> route_with table user_intent uuid4 =
         Inr \<lparr>workflow_id = uuid4, primary_agent = n,
              supporting_agents = get_supporting_agents n, estimated_duration = 5,
              steps = \<lparr>step_no = 1, step_agent = n, step_action = ''process_request'',
                        step_status = ''pending''\<rparr> # support_steps 0 (get_supporting_agents n)\<rparr>"
proof -
  from select_primary_nonempty[OF with_default_nonempty]
  obtain n where "select_primary (with_default (score_loop table (lower user_intent) [])) = Inr n"
    by blast
  then show ?thesis by (simp add: route_with_def Let_def)
qed

text \<open>
  C8.  Every plan returned by routing has one step per agent: the first step belongs to
  the primary agent, with action \<open>process_request\<close> and status \<open>pending\<close>; the supporting
  agents are those of the static support table, in its order, and the step after the \<open>i\<close>-th
  of them carries that agent with action \<open>support_processing\<close> and status \<open>waiting\<close>; the
  plan has \<open>1 + |supporting_agents|\<close> steps, numbered consecutively from 1.
\<close>

theorem routing_plan_shape:
  assumes "analyze_and_route user_intent uuid4 = Inr p"
  shows "length (steps p) = 1 + length (supporting_agents p)
       \<and> step_agent (steps p ! 0) = primary_agent p
       \<and> step_no (steps p ! 0) = 1
       \<and> step_action (steps p ! 0) = ''process_request''
       \<and> step_status (steps p ! 0) = ''pending''
       \<and> supporting_agents p = get_supporting_agents (primary_agent p)
       \<and> (\<forall>i < length (supporting_agents p).
             steps p ! (i + 1) =
               \<lparr>step_no = i + 2, step_agent = supporting_agents p ! i,
                step_action = ''support_processing'', step_status = ''waiting''\<rparr>)
       \<and> (\<forall>k < length (steps p). step_no (steps p ! k) = k + 1)"
proof -
  from route_with_total[of intent_keywords user_intent uuid4] assms
  obtain n where p: "p = \<lparr>workflow_id = uuid4, primary_agent = n,
              supporting_agents = get_supporting_agents n, estimated_duration = 5,
              steps = \<lparr>step_no = 1, step_agent = n, step_action = ''process_request'',
                        step_status = ''pending''\<rparr> # support_steps 0 (get_supporting_agents n)\<rparr>"
    by (auto simp: analyze_and_route_def)
  have "\<forall>k < length (steps p). step_no (steps p ! k) = k + 1"
  proof (intro allI impI)
    fix k assume "k < length (steps p)"
    then show "step_no (steps p ! k) = k + 1"
      by (cases k) (simp_all add: p support_steps_length support_steps_nth)
  qed
  then show ?thesis
    by (simp add: p support_steps_length support_steps_nth)
qed

theorem routing_plan_shape_witness:
  "analyze_and_route ''I need to see a Doctor'' ''wf-1'' =
     Inr \<lparr>workflow_id = ''wf-1'', primary_agent = ''doctorlinc'',
          supporting_agents = [''nurslinc'', ''patientlinc''], estimated_duration = 5,
          steps = [\<lparr>step_no = 1, step_agent = ''doctorlinc'', step_action = ''process_request'',
                    step_status = ''pending''\<rparr>,
                   \<lparr>step_no = 2, step_agent = ''nurslinc'', step_action = ''support_processing'',
                    step_status = ''waiting''\<rparr>,
                   \<lparr>step_no = 3, step_agent = ''patientlinc'', step_action = ''support_processing'',
                    step_status = ''waiting''\<rparr>]\<rparr>
   \<and> length (steps \<lparr>workflow_id = ''wf-1'', primary_agent = ''doctorlinc'',
          supporting_agents = [''nurslinc'', ''patientlinc''], estimated_duration = 5,
          steps = [\<lparr>step_no = 1, step_agent = ''doctorlinc'', step_action = ''process_request'',
                    step_status = ''pending''\<rparr>,
                   \<lparr>step_no = 2, step_agent = ''nurslinc'', step_action = ''support_processing'',
                    step_status = ''waiting''\<rparr>,
                   \<lparr>step_no = 3, step_agent = ''patientlinc'', step_action = ''support_processing'',
                    step_status = ''waiting''\<rparr>]\<rparr>) =
       1 + length (supporting_agents \<lparr>workflow_id = ''wf-1'', primary_agent = ''doctorlinc'',
          supporting_agents = [''nurslinc'', ''patientlinc''], estimated_duration = 5,
          steps = [\<lparr>step_no = 1, step_agent = ''doctorlinc'', step_action = ''process_request'',
                    step_status = ''pending''\<rparr>,
                   \<lparr>step_no = 2, step_agent = ''nurslinc'', step_action = ''support_processing'',
                    step_status = ''waiting''\<rparr>,
                   \<lparr>step_no = 3, step_agent = ''patientlinc'', step_action = ''support_processing'',
                    step_status = ''waiting''\<rparr>]\<rparr>)"
proof -
  have h: "analyze_and_route ''I need to see a Doctor'' ''wf-1'' =
     Inr \<lparr>workflow_id = ''wf-1'', primary_agent = ''doctorlinc'',
          supporting_agents = [''nurslinc'', ''patientlinc''], estimated_duration = 5,
          steps = [\<lparr>step_no = 1, step_agent = ''doctorlinc'', step_action = ''process_request'',
                    step_status = ''pending''\<rparr>,
                   \<lparr>step_no = 2, step_agent = ''nurslinc'', step_action = ''support_processing'',
                    step_status = ''waiting''\<rparr>,
                   \<lparr>step_no = 3, step_agent = ''patientlinc'', step_action = ''support_processing'',
                    step_status = ''waiting''\<rparr>]\<rparr>"
    by code_simp
  from routing_plan_shape[OF h] h show ?thesis by blast
qed

lemma single_match_below_default:
  "\<forall>(agent_name, keywords)\<in>set intent_keywords. 1 / of_nat (length keywords) < (4 / 5 :: rat)"
  by (simp add: intent_keywords_def)

text \<open>
  C7, as stated, fails on the score: the fallback's 0.8 stays in the router's score table
  and the returned plan carries no score, and 0.8 is not a low confidence, being eight
  times the score 1/10 with which \<open>doctorlinc\<close> wins a real match.
\<close>

theorem fallback_score_not_low_counterexample:
  "with_default (agent_scores_of ''Qwerty 123'') = [(''chatlinc'', 4 / 5)]
   \<and> analyze_and_route ''Qwerty 123'' ''wf-2'' =
        Inr \<lparr>workflow_id = ''wf-2'', primary_agent = ''chatlinc'', supporting_agents = [],
             estimated_duration = 5,
             steps = [\<lparr>step_no = 1, step_agent = ''chatlinc'',
                       step_action = ''process_request'', step_status = ''pending''\<rparr>]\<rparr>
   \<and> with_default (agent_scores_of ''I need to see a Doctor'') = [(''doctorlinc'', 1 / 10)]
   \<and> (1 / 10 :: rat) < 4 / 5"
  by code_simp

text \<open>
  C7, amended.  When no keyword of any profile occurs in the lower-cased intent text,
  routing does not raise and returns a plan whose primary agent is the fallback agent
  \<open>chatlinc\<close>, with no supporting agents and one pending \<open>process_request\<close> step.  The
  fixed score 0.8 that the router gives \<open>chatlinc\<close> in this case exists in its score table
  only (the plan has no score field), and it is higher than the score of any
  single-keyword match of any profile.
\<close>

theorem unmatched_intent_falls_back:
  assumes "\<forall>(agent_name, keywords)\<in>set intent_keywords.
             keyword_count keywords (lower user_intent) = 0"
  shows "with_default (agent_scores_of user_intent) = [(''chatlinc'', 4 / 5)]
       \<and> analyze_and_route user_intent uuid4 =
           Inr \<lparr>workflow_id = uuid4, primary_agent = ''chatlinc'', supporting_agents = [],
                estimated_duration = 5,
                steps = [\<lparr>step_no = 1, step_agent = ''chatlinc'',
                          step_action = ''process_request'', step_status = ''pending''\<rparr>]\<rparr>
       \<and> (\<forall>(agent_name, keywords)\<in>set intent_keywords.
             1 / of_nat (length keywords) < (4 / 5 :: rat))"
proof -
  from score_loop_no_match[OF assms, of "[]"]
  have sc: "score_loop intent_keywords (lower user_intent) [] = []" .
  then have "with_default (agent_scores_of user_intent) = [(''chatlinc'', 4 / 5)]
       \<and> analyze_and_route user_intent uuid4 =
           Inr \<lparr>workflow_id = uuid4, primary_agent = ''chatlinc'', supporting_agents = [],
                estimated_duration = 5,
                steps = [\<lparr>step_no = 1, step_agent = ''chatlinc'',
                          step_action = ''process_request'', step_status = ''pending''\<rparr>]\<rparr>"
    by (simp add: agent_scores_of_def analyze_and_route_def route_with_def with_default_def
          select_primary_def py_max_def get_supporting_agents_def support_map_def)
  with single_match_below_default show ?thesis by blast
qed

theorem unmatched_intent_falls_back_witness:
  "list_all (\<lambda>(agent_name, keywords). keyword_count keywords (lower ''Qwerty 123'') = 0)
     intent_keywords
   \<and> with_default (agent_scores_of ''Qwerty 123'') = [(''chatlinc'', 4 / 5)]
   \<and> map_sum id primary_agent (analyze_and_route ''Qwerty 123'' ''wf-2'') = Inr ''chatlinc''
   \<and> list_all (\<lambda>(agent_name, keywords). 1 / of_nat (length keywords) < (4 / 5 :: rat))
        intent_keywords"
proof -
  have h: "\<forall>(agent_name, keywords)\<in>set intent_keywords.
             keyword_count keywords (lower ''Qwerty 123'') = 0"
    by code_simp
  from unmatched_intent_falls_back[OF h, of "''wf-2''"] h show ?thesis
    by (simp add: list_all_iff)
qed

text \<open>
  C4, as stated, fails: on \<open>business payment\<close> the agents \<open>bizlinc\<close> and \<open>paylinc\<close> tie at
  1/8, the winner is the one the table lists first, and the same profiles listed in the
  reverse order give the other winner.
\<close>

theorem tie_break_follows_table_order_counterexample:
  "agent_scores_of ''business payment'' = [(''bizlinc'', 1 / 8), (''paylinc'', 1 / 8)]
   \<and> map_sum id primary_agent (route_with intent_keywords ''business payment'' ''wf-3'')
        = Inr ''bizlinc''
   \<and> map_sum id primary_agent (route_with (rev intent_keywords) ''business payment'' ''wf-3'')
        = Inr ''paylinc''"
  by code_simp

text \<open>
  C4, amended.  For every intent text, each agent with at least one matching keyword gets
  the score (matching keywords) / (size of its profile), in the order of the keyword
  table, and an agent without a match gets no score; the count does not depend on the
  order of the keywords inside a profile; and when some agent matched, the primary agent
  is the first entry of maximal score in table order: every entry before it scores
  strictly less, every entry after it scores at most as much.
\<close>

theorem routing_scores_and_tie_break:
  "agent_scores_of user_intent =
      map (\<lambda>(n, ks). (n, of_nat (keyword_count ks (lower user_intent)) / of_nat (length ks)))
          (filter (\<lambda>(n, ks). 0 < keyword_count ks (lower user_intent)) intent_keywords)
   \<and> (mset ks = mset ks' \<longrightarrow> keyword_count ks intent = keyword_count ks' intent)
   \<and> (agent_scores_of user_intent \<noteq> [] \<longrightarrow>
        (\<exists>pre s post p. analyze_and_route user_intent uuid4 = Inr p
            \<and> agent_scores_of user_intent = pre @ (primary_agent p, s) # post
            \<and> (\<forall>(n, s')\<in>set pre. s' < s) \<and> (\<forall>(n, s')\<in>set post. s' \<le> s)))"
proof (intro conjI impI)
  show "agent_scores_of user_intent =
      map (\<lambda>(n, ks). (n, of_nat (keyword_count ks (lower user_intent)) / of_nat (length ks)))
          (filter (\<lambda>(n, ks). 0 < keyword_count ks (lower user_intent)) intent_keywords)"
    unfolding agent_scores_of_def
    using score_loop_distinct[OF intent_keywords_distinct, of "[]" "lower user_intent"] by simp
next
  assume "mset ks = mset ks'"
  then show "keyword_count ks intent = keyword_count ks' intent"
    by (simp add: keyword_count_mset)
next
  assume ne: "agent_scores_of user_intent \<noteq> []"
  then have wd: "with_default (agent_scores_of user_intent) = agent_scores_of user_intent"
    by (simp add: with_default_def)
  from select_primary_nonempty[OF ne] obtain pre n s post where
    sp: "select_primary (agent_scores_of user_intent) = Inr n"
    and eq: "agent_scores_of user_intent = pre @ (n, s) # post"
    and lt: "\<forall>a\<in>set pre. snd a < s" and le: "\<forall>a\<in>set post. snd a \<le> s" by blast
  from route_with_total[of intent_keywords user_intent uuid4] sp wd
  obtain p where p: "analyze_and_route user_intent uuid4 = Inr p" and pn: "primary_agent p = n"
    by (auto simp: analyze_and_route_def agent_scores_of_def)
  from lt le have "(\<forall>(n, s')\<in>set pre. s' < s) \<and> (\<forall>(n, s')\<in>set post. s' \<le> s)" by auto
  with p pn eq
  show "\<exists>pre s post p. analyze_and_route user_intent uuid4 = Inr p
            \<and> agent_scores_of user_intent = pre @ (primary_agent p, s) # post
            \<and> (\<forall>(n, s')\<in>set pre. s' < s) \<and> (\<forall>(n, s')\<in>set post. s' \<le> s)"
    by blast
qed

theorem routing_scores_and_tie_break_witness:
  "agent_scores_of ''business payment'' \<noteq> []
   \<and> mset [''rfp'', ''etimad''] = mset [''etimad'', ''rfp'']
   \<and> keyword_count [''rfp'', ''etimad''] ''an rfp'' = keyword_count [''etimad'', ''rfp''] ''an rfp''
   \<and> (\<exists>pre s post p. analyze_and_route ''business payment'' ''wf-3'' = Inr p
          \<and> agent_scores_of ''business payment'' = pre @ (primary_agent p, s) # post
          \<and> (\<forall>(n, s')\<in>set pre. s' < s) \<and> (\<forall>(n, s')\<in>set post. s' \<le> s))"
proof -
  have ne: "agent_scores_of ''business payment'' \<noteq> []" by code_simp
  have ms: "mset [''rfp'', ''etimad''] = mset [''etimad'', ''rfp'']" by simp
  note t = routing_scores_and_tie_break[of "''business payment''" "[''rfp'', ''etimad'']"
      "[''etimad'', ''rfp'']" "''an rfp''" "''wf-3''"]
  from t ms have "keyword_count [''rfp'', ''etimad''] ''an rfp'' = keyword_count [''etimad'', ''rfp''] ''an rfp''"
    by blast
  moreover from t ne have "\<exists>pre s post p. analyze_and_route ''business payment'' ''wf-3'' = Inr p
          \<and> agent_scores_of ''business payment'' = pre @ (primary_agent p, s) # post
          \<and> (\<forall>(n, s')\<in>set pre. s' < s) \<and> (\<forall>(n, s')\<in>set post. s' \<le> s)"
    by blast
  ultimately show ?thesis using ne ms by blast
qed

lemma handle_agent_message_terminal:
  assumes "wfs wid = Some w" and "wf_status w = ''completed'' \<or> wf_status w = ''error''"
  shows "\<exists>w'. fst (handle_agent_message now sender message_type payload wfs) wid = Some w'
            \<and> (wf_status w' = ''completed'' \<or> wf_status w' = ''error'')"
proof (cases "known_workflow wfs (dict_get payload ''workflow_id'')")
  case None
  with assms show ?thesis
    by (simp add: handle_agent_message_def Let_def)
next
  case (Some wid')
  then have known: "wfs wid' \<noteq> None"
    by (cases "dict_get payload ''workflow_id''") (auto split: if_splits)
  then obtain v where v: "wfs wid' = Some v" by auto
  show ?thesis
  proof (cases "wid' = wid")
    case True
    with Some v assms show ?thesis
      by (simp add: handle_agent_message_def Let_def)
  next
    case False
    with Some v assms show ?thesis
      by (simp add: handle_agent_message_def Let_def)
  qed
qed

lemma handle_all_terminal:
  "wfs wid = Some w \<Longrightarrow> wf_status w = ''completed'' \<or> wf_status w = ''error'' \<Longrightarrow>
   \<exists>w'. handle_all cbs wfs wid = Some w'
      \<and> (wf_status w' = ''completed'' \<or> wf_status w' = ''error'')"
proof (induction cbs arbitrary: wfs w)
  case Nil
  then show ?case by simp
next
  case (Cons c cbs)
  from handle_agent_message_terminal[of wfs wid w "cb_time c" "cb_from c" "cb_type c" "cb_payload c",
      OF Cons.prems]
  obtain w1 where
    "fst (handle_agent_message (cb_time c) (cb_from c) (cb_type c) (cb_payload c) wfs) wid = Some w1"
    "wf_status w1 = ''completed'' \<or> wf_status w1 = ''error''" by blast
  from Cons.IH[of "fst (handle_agent_message (cb_time c) (cb_from c) (cb_type c) (cb_payload c) wfs)" w1,
      OF this]
  show ?case by simp
qed

lemma callback_overwrites:
  assumes "wfs wid = Some w" and "dict_get payload ''workflow_id'' = JStr wid"
  shows "map_option wf_status
           (fst (handle_agent_message now sender ''workflow_complete'' payload wfs) wid) = Some ''completed''"
    and "map_option wf_status
           (fst (handle_agent_message now sender ''workflow_error'' payload wfs) wid) = Some ''error''"
  using assms by (simp_all add: handle_agent_message_def)

text \<open>
  C2, as stated, fails: a workflow that a \<open>workflow_complete\<close> callback has set to
  \<open>completed\<close> is set to \<open>error\<close> by a later \<open>workflow_error\<close> callback for the same id.
\<close>

theorem terminal_status_not_final_counterexample:
  "map_option wf_status
     (handle_all
        [\<lparr>cb_time = 20, cb_from = ''chatlinc'', cb_type = ''workflow_complete'',
          cb_payload = [(''workflow_id'', JStr ''wf-1'')]\<rparr>]
        [''wf-1'' \<mapsto>
           \<lparr>workflow_id = ''wf-1'', primary_agent = ''chatlinc'', supporting_agents = [],
            estimated_duration = 5,
            steps = [\<lparr>step_no = 1, step_agent = ''chatlinc'', step_action = ''process_request'',
                      step_status = ''pending''\<rparr>],
            wf_status = ''executing'', wf_user_id = 7, wf_started_at = 10,
            wf_completed_at = None, wf_error = None\<rparr>]
        ''wf-1'') = Some ''completed''
   \<and> map_option wf_status
     (handle_all
        [\<lparr>cb_time = 20, cb_from = ''chatlinc'', cb_type = ''workflow_complete'',
          cb_payload = [(''workflow_id'', JStr ''wf-1'')]\<rparr>,
         \<lparr>cb_time = 30, cb_from = ''chatlinc'', cb_type = ''workflow_error'',
          cb_payload = [(''workflow_id'', JStr ''wf-1''), (''error'', JStr ''late failure'')]\<rparr>]
        [''wf-1'' \<mapsto>
           \<lparr>workflow_id = ''wf-1'', primary_agent = ''chatlinc'', supporting_agents = [],
            estimated_duration = 5,
            steps = [\<lparr>step_no = 1, step_agent = ''chatlinc'', step_action = ''process_request'',
                      step_status = ''pending''\<rparr>],
            wf_status = ''executing'', wf_user_id = 7, wf_started_at = 10,
            wf_completed_at = None, wf_error = None\<rparr>]
        ''wf-1'') = Some ''error''"
  by (simp add: handle_agent_message_def dict_get_def)

text \<open>
  C2, amended.  Once an instance's status is \<open>completed\<close> or \<open>error\<close>, every sequence of
  later callbacks leaves the instance in the map with a status that is again \<open>completed\<close>
  or \<open>error\<close> (it never returns to a non-terminal value); within these two the status
  is not frozen: a \<open>workflow_complete\<close> callback naming the workflow sets \<open>completed\<close> and a
  \<open>workflow_error\<close> callback sets \<open>error\<close>, whatever the status was.
\<close>

theorem terminal_status_stays_terminal:
  assumes "wfs wid = Some w" and "wf_status w = ''completed'' \<or> wf_status w = ''error''"
  shows "(\<exists>w'. handle_all cbs wfs wid = Some w'
            \<and> (wf_status w' = ''completed'' \<or> wf_status w' = ''error''))
       \<and> (dict_get payload ''workflow_id'' = JStr wid \<longrightarrow>
            map_option wf_status
              (fst (handle_agent_message now sender ''workflow_complete'' payload wfs) wid)
              = Some ''completed''
          \<and> map_option wf_status
              (fst (handle_agent_message now sender ''workflow_error'' payload wfs) wid)
              = Some ''error'')"
  using handle_all_terminal[of wfs wid w cbs, OF assms]
    callback_overwrites[of wfs wid w payload now sender, OF assms(1)] by blast

theorem terminal_status_stays_terminal_witness:
  "\<exists>w. [''wf-1'' \<mapsto>
         \<lparr>workflow_id = ''wf-1'', primary_agent = ''chatlinc'', supporting_agents = [],
          estimated_duration = 5,
          steps = [\<lparr>step_no = 1, step_agent = ''chatlinc'', step_action = ''process_request'',
                    step_status = ''pending''\<rparr>],
          wf_status = ''completed'', wf_user_id = 7, wf_started_at = 10,
          wf_completed_at = Some 20, wf_error = None\<rparr>] ''wf-1'' = Some w
     \<and> wf_status w = ''completed''
     \<and> (\<exists>w'. handle_all
        [\<lparr>cb_time = 30, cb_from = ''chatlinc'', cb_type = ''workflow_error'',
          cb_payload = [(''workflow_id'', JStr ''wf-1''), (''error'', JStr ''late failure'')]\<rparr>,
         \<lparr>cb_time = 40, cb_from = ''chatlinc'', cb_type = ''workflow_complete'',
          cb_payload = [(''workflow_id'', JStr ''wf-1'')]\<rparr>]
        [''wf-1'' \<mapsto>
         \<lparr>workflow_id = ''wf-1'', primary_agent = ''chatlinc'', supporting_agents = [],
          estimated_duration = 5,
          steps = [\<lparr>step_no = 1, step_agent = ''chatlinc'', step_action = ''process_request'',
                    step_status = ''pending''\<rparr>],
          wf_status = ''completed'', wf_user_id = 7, wf_started_at = 10,
          wf_completed_at = Some 20, wf_error = None\<rparr>] ''wf-1'' = Some w'
          \<and> (wf_status w' = ''completed'' \<or> wf_status w' = ''error''))"
proof -
  define w where "w =
         \<lparr>workflow_id = ''wf-1'', primary_agent = ''chatlinc'', supporting_agents = [],
          estimated_duration = 5,
          steps = [\<lparr>step_no = 1, step_agent = ''chatlinc'', step_action = ''process_request'',
                    step_status = ''pending''\<rparr>],
          wf_status = ''completed'', wf_user_id = 7, wf_started_at = 10,
          wf_completed_at = Some 20, wf_error = None\<rparr>"
  have h1: "[''wf-1'' \<mapsto> w] ''wf-1'' = Some w" by simp
  have h2: "wf_status w = ''completed''" by (simp add: w_def)
  then have h3: "wf_status w = ''completed'' \<or> wf_status w = ''error''" by simp
  from terminal_status_stays_terminal[of "[''wf-1'' \<mapsto> w]" "''wf-1''" w, OF h1 h3] h1 h2
  show ?thesis unfolding w_def by blast
qed

section \<open>Properties of the execution engine's dispatch and of direct delivery\<close>

lemma publish_never_raises: "snd (snd (publish env b channel message)) = Inr ()"
  by (simp add: publish_def Let_def split: prod.splits sum.splits)

lemma execute_workflow_stays_executing:
  "map_option (\<lambda>w. (wf_status w, wf_error w))
     (active_workflows (execute_workflow env now wid workflow_data user_id st) wid)
   = Some (''executing'', None)"
proof -
  obtain b calls outcome where s: "send_to_agent env ''masterlinc'' (messenger_broker st)
               (primary_agent workflow_data) ''workflow_request''
               (JDict [(''workflow_id'', JStr wid), (''user_id'', JInt user_id),
                                   (''request_type'', JStr ''workflow_start''),
                                   (''context'', JDict [])]) = (b, calls, outcome)"
    by (cases "send_to_agent env ''masterlinc'' (messenger_broker st)
               (primary_agent workflow_data) ''workflow_request''
               (JDict [(''workflow_id'', JStr wid), (''user_id'', JInt user_id),
                                   (''request_type'', JStr ''workflow_start''),
                                   (''context'', JDict [])])") auto
  from s have "outcome = snd (snd (send_to_agent env ''masterlinc'' (messenger_broker st)
               (primary_agent workflow_data) ''workflow_request''
               (JDict [(''workflow_id'', JStr wid), (''user_id'', JInt user_id),
                                   (''request_type'', JStr ''workflow_start''),
                                   (''context'', JDict [])])))"
    by simp
  then have "outcome = Inr ()"
    unfolding send_to_agent_def publish_never_raises .
  with s show ?thesis
    by (simp add: execute_workflow_def Let_def workflow_plan.extend_def workflow_instance.fields_def)
qed

text \<open>
  C6 on the code: a dispatch whose Redis publish raises.  \<open>publish\<close> logs the exception
  and returns, so the \<^verbatim>\<open>except\<close> clause of \<open>execute_workflow\<close> is not reached: the
  instance stays \<open>executing\<close> and no error is recorded on it.
\<close>

theorem dispatch_failure_leaves_executing:
  "snd (publish_body \<lparr>from_url_ok = True, ping_ok = False, publish_ok = False,
             publish_timestamp = ''2024-05-01T10:00:00''\<rparr>
          (connect \<lparr>from_url_ok = True, ping_ok = False, publish_ok = False,
             publish_timestamp = ''2024-05-01T10:00:00''\<rparr>
             \<lparr>redis_client = False, is_connected = False, broker_id = 1\<rparr>)
          ''linc:agent:chatlinc'' [])
     = Inl (TransportError ''redis publish failed'')
   \<and> map_option (\<lambda>w. (wf_status w, wf_error w))
       (active_workflows
          (execute_workflow \<lparr>from_url_ok = True, ping_ok = False, publish_ok = False,
             publish_timestamp = ''2024-05-01T10:00:00''\<rparr> 100 ''wf-1''
             \<lparr>workflow_id = ''wf-1'', primary_agent = ''chatlinc'', supporting_agents = [],
              estimated_duration = 5,
              steps = [\<lparr>step_no = 1, step_agent = ''chatlinc'',
                        step_action = ''process_request'', step_status = ''pending''\<rparr>]\<rparr>
             7
             \<lparr>active_workflows = Map.empty,
              messenger_broker = \<lparr>redis_client = False, is_connected = False, broker_id = 1\<rparr>,
              redis_calls = []\<rparr>)
          ''wf-1'')
     = Some (''executing'', None)"
  by (simp add: execute_workflow_stays_executing publish_body_def connect_def)

text \<open>
  C1 on the code: a send without a caller-supplied correlation id whose HTTP request
  times out.  The record is persisted under the generated id, the delivery task is given
  the caller's \<^verbatim>\<open>None\<close>, and the record is still \<open>pending\<close> after the failure.
\<close>

theorem failed_send_without_correlation_id_stays_pending:
  "map (\<lambda>m. (msg_correlation_id m, msg_status m))
     (messages (snd (snd
        (post_messages_send ''masterlinc'' 100 ''3f2b8c1e-uuid'' True
           (Inl (TransportError ''timeout''))
           \<lparr>req_to_agent = ''doctorlinc'', req_message_type = ''request'',
            req_payload = JDict [], req_priority = ''normal'', req_correlation_id = None\<rparr>
           \<lparr>agents = [\<lparr>agent_name = ''doctorlinc'', agent_status = ''online'',
                        agent_port = 8010, last_heartbeat = 90\<rparr>],
            messages = []\<rparr>))))
   = [(Some ''3f2b8c1e-uuid'', ''pending'')]"
  by (simp add: post_messages_send_def send_message_def send_agent_message_def deliver_def
        find_agent_def)

text \<open>
  C5 on the code: a send that the peer answers with HTTP 200.  The peer's response body is
  returned, and the persisted record is not touched: its status is still \<open>pending\<close> and
  \<open>processed_at\<close> is still unset.
\<close>

theorem successful_send_stays_pending:
  "post_messages_send ''masterlinc'' 100 ''3f2b8c1e-uuid'' True
     (Inr \<lparr>resp_status_code = 200, resp_text = ''{}'',
           resp_json = Inr (JDict [(''status'', JStr ''received'')])\<rparr>)
     \<lparr>req_to_agent = ''doctorlinc'', req_message_type = ''request'',
      req_payload = JDict [], req_priority = ''normal'', req_correlation_id = Some ''c-1''\<rparr>
     \<lparr>agents = [\<lparr>agent_name = ''doctorlinc'', agent_status = ''online'',
                  agent_port = 8010, last_heartbeat = 90\<rparr>],
      messages = []\<rparr>
   = (Inr \<lparr>sr_status = ''sent'', sr_correlation_id = Some ''c-1''\<rparr>,
      Some (JDict [(''status'', JStr ''received'')]),
      \<lparr>agents = [\<lparr>agent_name = ''doctorlinc'', agent_status = ''online'',
                  agent_port = 8010, last_heartbeat = 90\<rparr>],
       messages = [\<lparr>msg_from_agent = ''masterlinc'', msg_to_agent = ''doctorlinc'',
                    msg_message_type = ''request'', msg_payload = JDict [],
                    msg_priority = ''normal'', msg_status = ''pending'',
                    msg_correlation_id = Some ''c-1'', msg_created_at = 100,
                    msg_processed_at = None\<rparr>]\<rparr>)"
  by (simp add: post_messages_send_def send_message_def send_agent_message_def deliver_def
        find_agent_def)

text \<open>
  C10, as stated, fails for a caller that supplies the empty string as correlation id: the
  persisted record carries the generated UUID, not the caller's value.
\<close>

theorem empty_correlation_id_replaced_counterexample:
  "map msg_correlation_id
     (messages (snd (snd
        (send_message ''masterlinc'' 100 ''3f2b8c1e-uuid'' True
           \<lparr>req_to_agent = ''doctorlinc'', req_message_type = ''request'',
            req_payload = JDict [], req_priority = ''normal'', req_correlation_id = Some ''''\<rparr>
           \<lparr>agents = [], messages = []\<rparr>))))
   = [Some ''3f2b8c1e-uuid'']"
  by (simp add: send_message_def)

text \<open>
  C10, amended.  For every call of the endpoint whose commit succeeds, one record is
  persisted, with status \<open>pending\<close> and a non-null correlation id: the caller's value when
  the caller supplied a non-empty one, otherwise (absent or empty) the generated UUID.  The
  response returns exactly the persisted correlation id, and the delivery task is given
  the caller-supplied value, which may be null.
\<close>

theorem send_message_correlation_id:
  "\<exists>m. send_message self_name now uuid4 True message d =
        (Inr \<lparr>sr_status = ''sent'', sr_correlation_id = msg_correlation_id m\<rparr>,
         Some \<lparr>task_to_agent = req_to_agent message,
               task_message_type = req_message_type message,
               task_payload = req_payload message,
               task_correlation_id = req_correlation_id message\<rparr>,
         d\<lparr>messages := messages d @ [m]\<rparr>)
      \<and> msg_correlation_id m \<noteq> None
      \<and> msg_status m = ''pending''
      \<and> (\<forall>c. req_correlation_id message = Some c \<and> c \<noteq> [] \<longrightarrow> msg_correlation_id m = Some c)
      \<and> (req_correlation_id message = None \<or> req_correlation_id message = Some []
            \<longrightarrow> msg_correlation_id m = Some uuid4)"
proof -
  define m where "m =
            \<lparr>msg_from_agent = self_name,
             msg_to_agent = req_to_agent message,
             msg_message_type = req_message_type message,
             msg_payload = req_payload message,
             msg_priority = req_priority message,
             msg_status = ''pending'',
             msg_correlation_id =
               (if truthy (req_correlation_id message) then req_correlation_id message
                else Some uuid4),
             msg_created_at = now,
             msg_processed_at = None\<rparr>"
  have 1: "send_message self_name now uuid4 True message d =
        (Inr \<lparr>sr_status = ''sent'', sr_correlation_id = msg_correlation_id m\<rparr>,
         Some \<lparr>task_to_agent = req_to_agent message,
               task_message_type = req_message_type message,
               task_payload = req_payload message,
               task_correlation_id = req_correlation_id message\<rparr>,
         d\<lparr>messages := messages d @ [m]\<rparr>)"
    by (simp add: send_message_def m_def Let_def)
  have 2: "msg_correlation_id m \<noteq> None"
    by (cases "req_correlation_id message") (simp_all add: m_def)
  have 3: "msg_status m = ''pending''" by (simp add: m_def)
  have 4: "\<forall>c. req_correlation_id message = Some c \<and> c \<noteq> [] \<longrightarrow> msg_correlation_id m = Some c"
    by (simp add: m_def)
  have 5: "req_correlation_id message = None \<or> req_correlation_id message = Some []
            \<longrightarrow> msg_correlation_id m = Some uuid4"
    by (auto simp: m_def)
  from 1 2 3 4 5 show ?thesis by blast
qed

theorem send_message_correlation_id_witness:
  "(\<exists>m. send_message ''masterlinc'' 100 ''3f2b8c1e-uuid'' True
          \<lparr>req_to_agent = ''doctorlinc'', req_message_type = ''request'',
           req_payload = JDict [], req_priority = ''normal'', req_correlation_id = Some ''c-1''\<rparr>
          \<lparr>agents = [], messages = []\<rparr>
        = (Inr \<lparr>sr_status = ''sent'', sr_correlation_id = msg_correlation_id m\<rparr>,
           Some \<lparr>task_to_agent = ''doctorlinc'', task_message_type = ''request'',
                 task_payload = JDict [], task_correlation_id = Some ''c-1''\<rparr>,
           \<lparr>agents = [], messages = [m]\<rparr>)
      \<and> msg_correlation_id m = Some ''c-1'')
   \<and> (\<exists>m. send_message ''masterlinc'' 100 ''3f2b8c1e-uuid'' True
          \<lparr>req_to_agent = ''doctorlinc'', req_message_type = ''request'',
           req_payload = JDict [], req_priority = ''normal'', req_correlation_id = None\<rparr>
          \<lparr>agents = [], messages = []\<rparr>
        = (Inr \<lparr>sr_status = ''sent'', sr_correlation_id = msg_correlation_id m\<rparr>,
           Some \<lparr>task_to_agent = ''doctorlinc'', task_message_type = ''request'',
                 task_payload = JDict [], task_correlation_id = None\<rparr>,
           \<lparr>agents = [], messages = [m]\<rparr>)
      \<and> msg_correlation_id m = Some ''3f2b8c1e-uuid'')"
proof -
  have a: "req_correlation_id
          \<lparr>req_to_agent = ''doctorlinc'', req_message_type = ''request'',
           req_payload = JDict [], req_priority = ''normal'', req_correlation_id = Some ''c-1''\<rparr>
        = Some ''c-1'' \<and> ''c-1'' \<noteq> []" by simp
  have b: "req_correlation_id
          \<lparr>req_to_agent = ''doctorlinc'', req_message_type = ''request'',
           req_payload = JDict [], req_priority = ''normal'', req_correlation_id = None\<rparr>
        = None" by simp
  from send_message_correlation_id[of "''masterlinc''" 100 "''3f2b8c1e-uuid''"
      "\<lparr>req_to_agent = ''doctorlinc'', req_message_type = ''request'',
           req_payload = JDict [], req_priority = ''normal'', req_correlation_id = Some ''c-1''\<rparr>"
      "\<lparr>agents = [], messages = []\<rparr>"] a
  have 1: "\<exists>m. send_message ''masterlinc'' 100 ''3f2b8c1e-uuid'' True
          \<lparr>req_to_agent = ''doctorlinc'', req_message_type = ''request'',
           req_payload = JDict [], req_priority = ''normal'', req_correlation_id = Some ''c-1''\<rparr>
          \<lparr>agents = [], messages = []\<rparr>
        = (Inr \<lparr>sr_status = ''sent'', sr_correlation_id = msg_correlation_id m\<rparr>,
           Some \<lparr>task_to_agent = ''doctorlinc'', task_message_type = ''request'',
                 task_payload = JDict [], task_correlation_id = Some ''c-1''\<rparr>,
           \<lparr>agents = [], messages = [m]\<rparr>)
      \<and> msg_correlation_id m = Some ''c-1''"
    by simp blast
  from send_message_correlation_id[of "''masterlinc''" 100 "''3f2b8c1e-uuid''"
      "\<lparr>req_to_agent = ''doctorlinc'', req_message_type = ''request'',
           req_payload = JDict [], req_priority = ''normal'', req_correlation_id = None\<rparr>"
      "\<lparr>agents = [], messages = []\<rparr>"] b
  have 2: "\<exists>m. send_message ''masterlinc'' 100 ''3f2b8c1e-uuid'' True
          \<lparr>req_to_agent = ''doctorlinc'', req_message_type = ''request'',
           req_payload = JDict [], req_priority = ''normal'', req_correlation_id = None\<rparr>
          \<lparr>agents = [], messages = []\<rparr>
        = (Inr \<lparr>sr_status = ''sent'', sr_correlation_id = msg_correlation_id m\<rparr>,
           Some \<lparr>task_to_agent = ''doctorlinc'', task_message_type = ''request'',
                 task_payload = JDict [], task_correlation_id = None\<rparr>,
           \<lparr>agents = [], messages = [m]\<rparr>)
      \<and> msg_correlation_id m = Some ''3f2b8c1e-uuid''"
    by simp blast
  from 1 2 show ?thesis by (rule conjI)
qed

section \<open>Properties of the liveness readers\<close>







text \<open>
  C9, as stated, fails: with an unexpired cached verdict \<open>unhealthy\<close> the next query does
  not return the cached verdict; it issues a new probe and returns that probe's result.
\<close>

theorem cached_unhealthy_probes_again_counterexample:
  "redis_get [cache_key DOCTOR \<mapsto> (''unhealthy'', 1050)] 1000 (cache_key DOCTOR) = Some ''unhealthy''
   \<and> fst (check_agent_health default_agent_registry_ttl True True (Inr 200) 1000 DOCTOR
            \<lparr>cache = [cache_key DOCTOR \<mapsto> (''unhealthy'', 1050)], probes = []\<rparr>) = True
   \<and> probes (snd (check_agent_health default_agent_registry_ttl True True (Inr 200) 1000 DOCTOR
            \<lparr>cache = [cache_key DOCTOR \<mapsto> (''unhealthy'', 1050)], probes = []\<rparr>)) = [DOCTOR]"
  by (simp add: check_agent_health_def check_agent_health_body_def redis_get_def
        default_agent_registry_ttl_def redis_setex_def)

text \<open>
  C9, amended.  A failing \<^verbatim>\<open>redis.get\<close> gives false without a probe.  While an unexpired
  cached \<open>healthy\<close> exists the query returns true without probing and without touching the
  state.  Otherwise a probe is issued; a cached \<open>unhealthy\<close> does not suppress it.  When
  the probe answers and the verdict can be stored (\<^verbatim>\<open>redis.setex\<close> returns, which needs a
  positive \<open>agent_registry_ttl\<close>), the verdict (healthy exactly for status 200) is returned
  and cached for \<open>agent_registry_ttl\<close> seconds, after which it has expired.  When the probe
  raises, or the verdict cannot be stored (\<^verbatim>\<open>redis.setex\<close> raises, or the time to live is
  zero), nothing is propagated: the verdict is false, even after a 200 answer, and nothing
  is cached.
\<close>

theorem health_verdict_caching:
  "(\<not> get_ok \<longrightarrow> check_agent_health ttl get_ok setex_ok probe now t st = (False, st))
   \<and> (get_ok \<and> redis_get (cache st) now (cache_key t) = Some ''healthy'' \<longrightarrow>
         check_agent_health ttl get_ok setex_ok probe now t st = (True, st))
   \<and> (get_ok \<and> redis_get (cache st) now (cache_key t) \<noteq> Some ''healthy'' \<and> probe = Inr code
        \<and> setex_ok \<and> 0 < ttl \<longrightarrow>
         fst (check_agent_health ttl get_ok setex_ok probe now t st) = (code = 200)
       \<and> probes (snd (check_agent_health ttl get_ok setex_ok probe now t st)) = probes st @ [t]
       \<and> (\<forall>later. now \<le> later \<and> later < now + ttl \<longrightarrow>
             redis_get (cache (snd (check_agent_health ttl get_ok setex_ok probe now t st))) later
               (cache_key t)
             = Some (if code = 200 then ''healthy'' else ''unhealthy''))
       \<and> redis_get (cache (snd (check_agent_health ttl get_ok setex_ok probe now t st)))
            (now + ttl) (cache_key t) = None)
   \<and> (get_ok \<and> redis_get (cache st) now (cache_key t) = Some ''unhealthy'' \<longrightarrow>
         probes (snd (check_agent_health ttl get_ok setex_ok probe now t st)) = probes st @ [t])
   \<and> (get_ok \<and> redis_get (cache st) now (cache_key t) \<noteq> Some ''healthy'' \<and> probe = Inl e \<longrightarrow>
         check_agent_health ttl get_ok setex_ok probe now t st
           = (False, st\<lparr>probes := probes st @ [t]\<rparr>))
   \<and> (get_ok \<and> redis_get (cache st) now (cache_key t) \<noteq> Some ''healthy'' \<and> probe = Inr code
        \<and> (\<not> setex_ok \<or> ttl = 0) \<longrightarrow>
         check_agent_health ttl get_ok setex_ok probe now t st
           = (False, st\<lparr>probes := probes st @ [t]\<rparr>))"
proof (intro conjI impI)
  assume "\<not> get_ok"
  then show "check_agent_health ttl get_ok setex_ok probe now t st = (False, st)"
    by (simp add: check_agent_health_def check_agent_health_body_def)
next
  assume "get_ok \<and> redis_get (cache st) now (cache_key t) = Some ''healthy''"
  then show "check_agent_health ttl get_ok setex_ok probe now t st = (True, st)"
    by (simp add: check_agent_health_def check_agent_health_body_def)
next
  assume "get_ok \<and> redis_get (cache st) now (cache_key t) = Some ''unhealthy''"
  then show "probes (snd (check_agent_health ttl get_ok setex_ok probe now t st)) = probes st @ [t]"
    by (cases probe) (simp_all add: check_agent_health_def check_agent_health_body_def Let_def)
next
  assume "get_ok \<and> redis_get (cache st) now (cache_key t) \<noteq> Some ''healthy'' \<and> probe = Inl e"
  then show "check_agent_health ttl get_ok setex_ok probe now t st
           = (False, st\<lparr>probes := probes st @ [t]\<rparr>)"
    by (simp add: check_agent_health_def check_agent_health_body_def Let_def)
next
  assume "get_ok \<and> redis_get (cache st) now (cache_key t) \<noteq> Some ''healthy'' \<and> probe = Inr code
        \<and> (\<not> setex_ok \<or> ttl = 0)"
  then show "check_agent_health ttl get_ok setex_ok probe now t st
           = (False, st\<lparr>probes := probes st @ [t]\<rparr>)"
    by (auto simp: check_agent_health_def check_agent_health_body_def Let_def)
next
  assume a: "get_ok \<and> redis_get (cache st) now (cache_key t) \<noteq> Some ''healthy'' \<and> probe = Inr code
        \<and> setex_ok \<and> 0 < ttl"
  then show "fst (check_agent_health ttl get_ok setex_ok probe now t st) = (code = 200)"
    by (simp add: check_agent_health_def check_agent_health_body_def Let_def)
  from a show "probes (snd (check_agent_health ttl get_ok setex_ok probe now t st)) = probes st @ [t]"
    by (simp add: check_agent_health_def check_agent_health_body_def Let_def)
  from a show "\<forall>later. now \<le> later \<and> later < now + ttl \<longrightarrow>
             redis_get (cache (snd (check_agent_health ttl get_ok setex_ok probe now t st))) later
               (cache_key t)
             = Some (if code = 200 then ''healthy'' else ''unhealthy'')"
    by (simp add: check_agent_health_def check_agent_health_body_def Let_def redis_get_def
          redis_setex_def)
  from a show "redis_get (cache (snd (check_agent_health ttl get_ok setex_ok probe now t st)))
            (now + ttl) (cache_key t) = None"
    by (simp add: check_agent_health_def check_agent_health_body_def Let_def redis_get_def
          redis_setex_def)
qed

theorem health_verdict_caching_witness:
  "redis_get [cache_key DOCTOR \<mapsto> (''unhealthy'', 1050)] 1000 (cache_key DOCTOR)
        = Some ''unhealthy''
   \<and> fst (check_agent_health 60 True True (Inr 503) 1000 DOCTOR
            \<lparr>cache = [cache_key DOCTOR \<mapsto> (''unhealthy'', 1050)], probes = []\<rparr>) = False
   \<and> probes (snd (check_agent_health 60 True True (Inr 503) 1000 DOCTOR
            \<lparr>cache = [cache_key DOCTOR \<mapsto> (''unhealthy'', 1050)], probes = []\<rparr>)) = [DOCTOR]
   \<and> redis_get (cache (snd (check_agent_health 60 True True (Inr 503) 1000 DOCTOR
            \<lparr>cache = [cache_key DOCTOR \<mapsto> (''unhealthy'', 1050)], probes = []\<rparr>))) 1059
         (cache_key DOCTOR) = Some ''unhealthy''
   \<and> redis_get (cache (snd (check_agent_health 60 True True (Inr 503) 1000 DOCTOR
            \<lparr>cache = [cache_key DOCTOR \<mapsto> (''unhealthy'', 1050)], probes = []\<rparr>))) 1060
         (cache_key DOCTOR) = None
   \<and> redis_get [cache_key DOCTOR \<mapsto> (''healthy'', 1050)] 1000 (cache_key DOCTOR)
        = Some ''healthy''
   \<and> check_agent_health 60 True True (Inr 503) 1000 DOCTOR
        \<lparr>cache = [cache_key DOCTOR \<mapsto> (''healthy'', 1050)], probes = []\<rparr>
       = (True, \<lparr>cache = [cache_key DOCTOR \<mapsto> (''healthy'', 1050)], probes = []\<rparr>)
   \<and> check_agent_health 0 True True (Inr 200) 1000 DOCTOR
        \<lparr>cache = [cache_key DOCTOR \<mapsto> (''unhealthy'', 1050)], probes = []\<rparr>
       = (False, \<lparr>cache = [cache_key DOCTOR \<mapsto> (''unhealthy'', 1050)], probes = [DOCTOR]\<rparr>)
   \<and> check_agent_health 60 True False (Inr 200) 1000 DOCTOR
        \<lparr>cache = [cache_key DOCTOR \<mapsto> (''unhealthy'', 1050)], probes = []\<rparr>
       = (False, \<lparr>cache = [cache_key DOCTOR \<mapsto> (''unhealthy'', 1050)], probes = [DOCTOR]\<rparr>)
   \<and> check_agent_health 60 True True (Inl (TransportError ''timeout'')) 1000 DOCTOR
        \<lparr>cache = [cache_key DOCTOR \<mapsto> (''unhealthy'', 1050)], probes = []\<rparr>
       = (False, \<lparr>cache = [cache_key DOCTOR \<mapsto> (''unhealthy'', 1050)], probes = [DOCTOR]\<rparr>)
   \<and> check_agent_health 60 False True (Inr 200) 1000 DOCTOR
        \<lparr>cache = [cache_key DOCTOR \<mapsto> (''healthy'', 1050)], probes = []\<rparr>
       = (False, \<lparr>cache = [cache_key DOCTOR \<mapsto> (''healthy'', 1050)], probes = []\<rparr>)"
proof -
  define su where "su = \<lparr>cache = [cache_key DOCTOR \<mapsto> (''unhealthy'', 1050)], probes = []\<rparr>"
  define sh where "sh = \<lparr>cache = [cache_key DOCTOR \<mapsto> (''healthy'', 1050)], probes = []\<rparr>"
  have u0: "redis_get [cache_key DOCTOR \<mapsto> (''unhealthy'', 1050)] 1000 (cache_key DOCTOR)
        = Some ''unhealthy''"
    by (simp add: redis_get_def)
  have g0: "redis_get [cache_key DOCTOR \<mapsto> (''healthy'', 1050)] 1000 (cache_key DOCTOR)
        = Some ''healthy''"
    by (simp add: redis_get_def)
  have su_upd: "su\<lparr>probes := probes su @ [DOCTOR]\<rparr>
      = \<lparr>cache = [cache_key DOCTOR \<mapsto> (''unhealthy'', 1050)], probes = [DOCTOR]\<rparr>"
    by (simp add: su_def)
  have u3: "True \<and> redis_get (cache su) 1000 (cache_key DOCTOR) \<noteq> Some ''healthy''
             \<and> (Inr 503 :: error + nat) = Inr 503 \<and> True \<and> (0::nat) < 60"
    using u0 by (simp add: su_def)
  have u4: "True \<and> redis_get (cache su) 1000 (cache_key DOCTOR) = Some ''unhealthy''"
    using u0 by (simp add: su_def)
  have g2: "True \<and> redis_get (cache sh) 1000 (cache_key DOCTOR) = Some ''healthy''"
    using g0 by (simp add: sh_def)
  have u5: "True \<and> redis_get (cache su) 1000 (cache_key DOCTOR) \<noteq> Some ''healthy''
             \<and> (Inl (TransportError ''timeout'') :: error + nat) = Inl (TransportError ''timeout'')"
    using u0 by (simp add: su_def)
  have u6a: "True \<and> redis_get (cache su) 1000 (cache_key DOCTOR) \<noteq> Some ''healthy''
             \<and> (Inr 200 :: error + nat) = Inr 200 \<and> (\<not> True \<or> (0::nat) = 0)"
    using u0 by (simp add: su_def)
  have u6b: "True \<and> redis_get (cache su) 1000 (cache_key DOCTOR) \<noteq> Some ''healthy''
             \<and> (Inr 200 :: error + nat) = Inr 200 \<and> (\<not> False \<or> (60::nat) = 0)"
    using u0 by (simp add: su_def)
  have n1: "\<not> False" by simp
  note a = health_verdict_caching[where ttl = 60 and get_ok = True and setex_ok = True
      and st = su and now = 1000 and t = DOCTOR and probe = "Inr 503" and code = 503]
  note a3 = a[THEN conjunct2, THEN conjunct2, THEN conjunct1, THEN mp, OF u3]
  note a4 = a[THEN conjunct2, THEN conjunct2, THEN conjunct2, THEN conjunct1, THEN mp, OF u4]
  have r1: "fst (check_agent_health 60 True True (Inr 503) 1000 DOCTOR su) = False"
    using a3[THEN conjunct1] by simp
  have r2: "probes (snd (check_agent_health 60 True True (Inr 503) 1000 DOCTOR su)) = [DOCTOR]"
    using a4 by (simp add: su_def)
  have r3: "redis_get (cache (snd (check_agent_health 60 True True (Inr 503) 1000 DOCTOR su))) 1059
         (cache_key DOCTOR) = Some ''unhealthy''"
    using a3[THEN conjunct2, THEN conjunct2, THEN conjunct1, THEN spec, of 1059] by simp
  have r4: "redis_get (cache (snd (check_agent_health 60 True True (Inr 503) 1000 DOCTOR su))) 1060
         (cache_key DOCTOR) = None"
    using a3[THEN conjunct2, THEN conjunct2, THEN conjunct2] by simp
  have r5: "check_agent_health 60 True True (Inr 503) 1000 DOCTOR sh = (True, sh)"
    using health_verdict_caching[where ttl = 60 and get_ok = True and setex_ok = True
      and st = sh and now = 1000 and t = DOCTOR and probe = "Inr 503",
      THEN conjunct2, THEN conjunct1, THEN mp, OF g2] .
  have r6: "check_agent_health 0 True True (Inr 200) 1000 DOCTOR su
       = (False, su\<lparr>probes := probes su @ [DOCTOR]\<rparr>)"
    using health_verdict_caching[where ttl = 0 and get_ok = True and setex_ok = True
      and st = su and now = 1000 and t = DOCTOR and probe = "Inr 200" and code = 200,
      THEN conjunct2, THEN conjunct2, THEN conjunct2, THEN conjunct2, THEN conjunct2,
      THEN mp, OF u6a] .
  have r7: "check_agent_health 60 True False (Inr 200) 1000 DOCTOR su
       = (False, su\<lparr>probes := probes su @ [DOCTOR]\<rparr>)"
    using health_verdict_caching[where ttl = 60 and get_ok = True and setex_ok = False
      and st = su and now = 1000 and t = DOCTOR and probe = "Inr 200" and code = 200,
      THEN conjunct2, THEN conjunct2, THEN conjunct2, THEN conjunct2, THEN conjunct2,
      THEN mp, OF u6b] .
  have r8: "check_agent_health 60 True True (Inl (TransportError ''timeout'')) 1000 DOCTOR su
       = (False, su\<lparr>probes := probes su @ [DOCTOR]\<rparr>)"
    using health_verdict_caching[where ttl = 60 and get_ok = True and setex_ok = True
      and st = su and now = 1000 and t = DOCTOR and probe = "Inl (TransportError ''timeout'')"
      and e = "TransportError ''timeout''",
      THEN conjunct2, THEN conjunct2, THEN conjunct2, THEN conjunct2, THEN conjunct1,
      THEN mp, OF u5] .
  have r9: "check_agent_health 60 False True (Inr 200) 1000 DOCTOR sh = (False, sh)"
    using health_verdict_caching[where ttl = 60 and get_ok = False and setex_ok = True
      and st = sh and now = 1000 and t = DOCTOR and probe = "Inr 200",
      THEN conjunct1, THEN mp, OF n1] .
  show ?thesis
    using u0 r1 r2 r3 r4 g0 r5 r6 r7 r8 r9 unfolding su_upd unfolding su_def sh_def
    by (intro conjI)
qed

end
